theory Spec2Isabelle
  imports Main "HOL-Library.Word"
begin

section \<open>The CX (Composable Extensions) CSR hooks of target/riscv/cx.c\<close>

text \<open>
  The file target/riscv/cx.c defines eight functions, one read hook and one write hook
  for each of the four CX registers (cxsel, cxsetsel, cxidx, cxdata). Every one of them
  has the shape

  \<^verbatim>\<open>void cxsel_csr_read(CPURISCVState *env, uint32_t reg_index, target_ulong val)
  {
      trace_cxsel_csr_read(env->mhartid, reg_index, val);
  }\<close>

  The type \<^verbatim>\<open>target_ulong\<close> is the unsigned integer of the target's register width
  (32 or 64 bits). The data types below take the type of such a value as their
  parameter \<open>'w\<close>; the hooks use them at \<open>'a word\<close>, for any width \<open>'a\<close>.
\<close>

subsection \<open>Data\<close>

text \<open>
  Modelled from the spec: the declaration of \<^verbatim>\<open>CPURISCVState\<close> (cpu.h) is not part of
  the sources. The hooks read the one field \<^verbatim>\<open>mhartid\<close>. The three coordinates of the
  per-hart window state of the specification (Selector, Set-Selector, Index; all zero at
  hart creation) are fields of the record, and every other field of the structure is
  the extension slot of the record scheme.
\<close>

record 'w CPURISCVState =
  mhartid :: 'w
  selector :: 'w
  set_selector :: 'w
  index :: 'w

text \<open>The four CX registers and the two kinds of access, as the function names have them.\<close>

datatype cx_register = Cxsel | Cxsetsel | Cxidx | Cxdata

datatype access_kind = CsrRead | CsrWrite

text \<open>
  Modelled from the spec: the eight \<^verbatim>\<open>trace_*\<close> functions are generated from a
  trace-events file that is not part of the sources. A call of one of them is one
  report to the observability sink: the trace point (register and kind of access) and the
  three arguments of the call. The sink is the list of the events emitted so far.
\<close>

record 'w trace_event =
  ev_register :: cx_register
  ev_kind :: access_kind
  ev_hartid :: 'w
  ev_reg_index :: "32 word"
  ev_val :: 'w

text \<open>
  What a call gives back to its caller. A function declared \<^verbatim>\<open>void\<close> gives back
  nothing: \<open>Void\<close>. The two other shapes are those of the access result of the
  specification, a value or a failure.
\<close>

datatype ('e, 'v) hook_result = Void | Value 'v | Failure 'e

text \<open>
  Modelled from the spec: the failures of the specification's error taxonomy for register
  accesses. The sources declare no error type.
\<close>

datatype 'w cx_error =
  NoExtensionSelected
| UnknownExtension
| InvalidWindow
| ExtensionFault 'w

text \<open>
  The machine a hook runs on: the CPU state behind the pointer \<^verbatim>\<open>env\<close> and the trace
  sink. Whatever else exists in the emulator is the extension slot of the scheme.
\<close>

record ('w, 'm) machine =
  env :: "('w, 'm) CPURISCVState_scheme"
  trace_log :: "'w trace_event list"

text \<open>
  Modelled from the spec: the extension modules and their registry. The sources hold no
  registry, no handler and no status type; they are written down here from the
  specification's data model so that the claims about them can be stated on the hooks.
  A handler is a pair of operations on the store of the modules; the registry maps a
  Selector value to a handler; two counters record every registry lookup and every
  handler call. They extend the machine, so every hook runs on such a system too.
\<close>

datatype 'w ExtStatus = Ok | BadSetSelector | BadIndex | ModuleStatus 'w

record ('w, 's) ExtensionHandler =
  handler_read :: "'s \<Rightarrow> 'w \<Rightarrow> 'w \<Rightarrow> 'w \<times> 'w ExtStatus"
  handler_write :: "'s \<Rightarrow> 'w \<Rightarrow> 'w \<Rightarrow> 'w \<Rightarrow> 'w ExtStatus \<times> 's"

record ('w, 'm, 's) cx_system = "('w, 'm) machine" +
  registry :: "'w \<rightharpoonup> ('w, 's) ExtensionHandler"
  module_store :: 's
  registry_lookups :: nat
  handler_calls :: nat

subsection \<open>The trace points\<close>

abbreviation cx_event ::
  "cx_register \<Rightarrow> access_kind \<Rightarrow> 'w \<Rightarrow> 32 word \<Rightarrow> 'w \<Rightarrow> 'w trace_event" where
  "cx_event reg kind hartid reg_index val \<equiv>
     \<lparr>ev_register = reg, ev_kind = kind, ev_hartid = hartid,
      ev_reg_index = reg_index, ev_val = val\<rparr>"

definition trace_cxsel_csr_read ::
  "'w \<Rightarrow> 32 word \<Rightarrow> 'w \<Rightarrow> 'w trace_event list \<Rightarrow> 'w trace_event list" where
  "trace_cxsel_csr_read hartid reg_index val sink =
     sink @ [cx_event Cxsel CsrRead hartid reg_index val]"

definition trace_cxsel_csr_write ::
  "'w \<Rightarrow> 32 word \<Rightarrow> 'w \<Rightarrow> 'w trace_event list \<Rightarrow> 'w trace_event list" where
  "trace_cxsel_csr_write hartid reg_index val sink =
     sink @ [cx_event Cxsel CsrWrite hartid reg_index val]"

definition trace_cxsetsel_csr_read ::
  "'w \<Rightarrow> 32 word \<Rightarrow> 'w \<Rightarrow> 'w trace_event list \<Rightarrow> 'w trace_event list" where
  "trace_cxsetsel_csr_read hartid reg_index val sink =
     sink @ [cx_event Cxsetsel CsrRead hartid reg_index val]"

definition trace_cxsetsel_csr_write ::
  "'w \<Rightarrow> 32 word \<Rightarrow> 'w \<Rightarrow> 'w trace_event list \<Rightarrow> 'w trace_event list" where
  "trace_cxsetsel_csr_write hartid reg_index val sink =
     sink @ [cx_event Cxsetsel CsrWrite hartid reg_index val]"

definition trace_cxidx_csr_read ::
  "'w \<Rightarrow> 32 word \<Rightarrow> 'w \<Rightarrow> 'w trace_event list \<Rightarrow> 'w trace_event list" where
  "trace_cxidx_csr_read hartid reg_index val sink =
     sink @ [cx_event Cxidx CsrRead hartid reg_index val]"

definition trace_cxidx_csr_write ::
  "'w \<Rightarrow> 32 word \<Rightarrow> 'w \<Rightarrow> 'w trace_event list \<Rightarrow> 'w trace_event list" where
  "trace_cxidx_csr_write hartid reg_index val sink =
     sink @ [cx_event Cxidx CsrWrite hartid reg_index val]"

definition trace_cxdata_csr_read ::
  "'w \<Rightarrow> 32 word \<Rightarrow> 'w \<Rightarrow> 'w trace_event list \<Rightarrow> 'w trace_event list" where
  "trace_cxdata_csr_read hartid reg_index val sink =
     sink @ [cx_event Cxdata CsrRead hartid reg_index val]"

definition trace_cxdata_csr_write ::
  "'w \<Rightarrow> 32 word \<Rightarrow> 'w \<Rightarrow> 'w trace_event list \<Rightarrow> 'w trace_event list" where
  "trace_cxdata_csr_write hartid reg_index val sink =
     sink @ [cx_event Cxdata CsrWrite hartid reg_index val]"

subsection \<open>The eight hooks of cx.c\<close>

text \<open>
  A hook takes the machine, the register index and the value, and gives back what its
  caller receives together with the machine after the call. The body of each is the one
  call of its trace point on \<^verbatim>\<open>env->mhartid\<close>, \<^verbatim>\<open>reg_index\<close> and \<^verbatim>\<open>val\<close>; the function
  is \<^verbatim>\<open>void\<close> and has no other statement.
\<close>

type_synonym ('a, 'm, 'z) cx_hook =
  "('a word, 'm, 'z) machine_scheme \<Rightarrow> 32 word \<Rightarrow> 'a word \<Rightarrow>
     ('a word cx_error, 'a word) hook_result \<times> ('a word, 'm, 'z) machine_scheme"

definition cxsel_csr_read :: "('a::len, 'm, 'z) cx_hook" where
  "cxsel_csr_read w reg_index val =
     (Void, w\<lparr>trace_log := trace_cxsel_csr_read (mhartid (env w)) reg_index val (trace_log w)\<rparr>)"

definition cxsel_csr_write :: "('a::len, 'm, 'z) cx_hook" where
  "cxsel_csr_write w reg_index val =
     (Void, w\<lparr>trace_log := trace_cxsel_csr_write (mhartid (env w)) reg_index val (trace_log w)\<rparr>)"

definition cxsetsel_csr_read :: "('a::len, 'm, 'z) cx_hook" where
  "cxsetsel_csr_read w reg_index val =
     (Void, w\<lparr>trace_log := trace_cxsetsel_csr_read (mhartid (env w)) reg_index val (trace_log w)\<rparr>)"

definition cxsetsel_csr_write :: "('a::len, 'm, 'z) cx_hook" where
  "cxsetsel_csr_write w reg_index val =
     (Void, w\<lparr>trace_log := trace_cxsetsel_csr_write (mhartid (env w)) reg_index val (trace_log w)\<rparr>)"

definition cxidx_csr_read :: "('a::len, 'm, 'z) cx_hook" where
  "cxidx_csr_read w reg_index val =
     (Void, w\<lparr>trace_log := trace_cxidx_csr_read (mhartid (env w)) reg_index val (trace_log w)\<rparr>)"

definition cxidx_csr_write :: "('a::len, 'm, 'z) cx_hook" where
  "cxidx_csr_write w reg_index val =
     (Void, w\<lparr>trace_log := trace_cxidx_csr_write (mhartid (env w)) reg_index val (trace_log w)\<rparr>)"

definition cxdata_csr_read :: "('a::len, 'm, 'z) cx_hook" where
  "cxdata_csr_read w reg_index val =
     (Void, w\<lparr>trace_log := trace_cxdata_csr_read (mhartid (env w)) reg_index val (trace_log w)\<rparr>)"

definition cxdata_csr_write :: "('a::len, 'm, 'z) cx_hook" where
  "cxdata_csr_write w reg_index val =
     (Void, w\<lparr>trace_log := trace_cxdata_csr_write (mhartid (env w)) reg_index val (trace_log w)\<rparr>)"

subsection \<open>Concrete systems\<close>

text \<open>
  Modelled from the spec: the module of the specification's scenario, one set (number 0)
  of sixteen words. It rejects every other set and every index from 16 on, and a write
  followed by a read at the same legal coordinates gives the written value back.
\<close>

definition array_module :: "('a::len word, 'a word list) ExtensionHandler" where
  "array_module =
     \<lparr>handler_read = (\<lambda>store s i.
        if s \<noteq> 0 then (0, BadSetSelector)
        else if 16 \<le> unat i then (0, BadIndex)
        else (store ! unat i, Ok)),
      handler_write = (\<lambda>store s i v.
        if s \<noteq> 0 then (BadSetSelector, store)
        else if 16 \<le> unat i then (BadIndex, store)
        else (Ok, store[unat i := v]))\<rparr>"

text \<open>
  Modelled from the spec: a hart as it is created (hart 0 of a 64-bit target, every
  coordinate zero), and a system whose registry binds Selector 5 to the array module,
  with an empty trace sink and both counters at zero.
\<close>

definition hart0 :: "64 word CPURISCVState" where
  "hart0 = \<lparr>mhartid = 0, selector = 0, set_selector = 0, index = 0\<rparr>"

definition system0 :: "(64 word, unit, 64 word list) cx_system" where
  "system0 =
     \<lparr>env = hart0, trace_log = [],
      registry = [5 \<mapsto> array_module], module_store = replicate 16 0,
      registry_lookups = 0, handler_calls = 0\<rparr>"

text \<open>The same system with the coordinates of the hart set by hand.\<close>

definition system_at :: "64 word \<Rightarrow> 64 word \<Rightarrow> 64 word \<Rightarrow> (64 word, unit, 64 word list) cx_system" where
  "system_at sel s i = system0\<lparr>env := hart0\<lparr>selector := sel, set_selector := s, index := i\<rparr>\<rparr>"

section \<open>What each hook does\<close>

lemmas trace_defs =
  trace_cxsel_csr_read_def trace_cxsel_csr_write_def
  trace_cxsetsel_csr_read_def trace_cxsetsel_csr_write_def
  trace_cxidx_csr_read_def trace_cxidx_csr_write_def
  trace_cxdata_csr_read_def trace_cxdata_csr_write_def

lemmas hook_defs =
  cxsel_csr_read_def cxsel_csr_write_def cxsetsel_csr_read_def cxsetsel_csr_write_def
  cxidx_csr_read_def cxidx_csr_write_def cxdata_csr_read_def cxdata_csr_write_def

lemmas system_defs = system_at_def system0_def hart0_def

lemma fst_hooks:
  "fst (cxsel_csr_read w r v) = Void" "fst (cxsel_csr_write w r v) = Void"
  "fst (cxsetsel_csr_read w r v) = Void" "fst (cxsetsel_csr_write w r v) = Void"
  "fst (cxidx_csr_read w r v) = Void" "fst (cxidx_csr_write w r v) = Void"
  "fst (cxdata_csr_read w r v) = Void" "fst (cxdata_csr_write w r v) = Void"
  by (simp_all add: hook_defs)

lemma snd_hooks:
  "snd (cxsel_csr_read w r v) =
     w\<lparr>trace_log := trace_log w @ [cx_event Cxsel CsrRead (mhartid (env w)) r v]\<rparr>"
  "snd (cxsel_csr_write w r v) =
     w\<lparr>trace_log := trace_log w @ [cx_event Cxsel CsrWrite (mhartid (env w)) r v]\<rparr>"
  "snd (cxsetsel_csr_read w r v) =
     w\<lparr>trace_log := trace_log w @ [cx_event Cxsetsel CsrRead (mhartid (env w)) r v]\<rparr>"
  "snd (cxsetsel_csr_write w r v) =
     w\<lparr>trace_log := trace_log w @ [cx_event Cxsetsel CsrWrite (mhartid (env w)) r v]\<rparr>"
  "snd (cxidx_csr_read w r v) =
     w\<lparr>trace_log := trace_log w @ [cx_event Cxidx CsrRead (mhartid (env w)) r v]\<rparr>"
  "snd (cxidx_csr_write w r v) =
     w\<lparr>trace_log := trace_log w @ [cx_event Cxidx CsrWrite (mhartid (env w)) r v]\<rparr>"
  "snd (cxdata_csr_read w r v) =
     w\<lparr>trace_log := trace_log w @ [cx_event Cxdata CsrRead (mhartid (env w)) r v]\<rparr>"
  "snd (cxdata_csr_write w r v) =
     w\<lparr>trace_log := trace_log w @ [cx_event Cxdata CsrWrite (mhartid (env w)) r v]\<rparr>"
  by (simp_all add: hook_defs trace_defs)


lemma system_at_simps:
  "env (system_at sel s i) = \<lparr>mhartid = 0, selector = sel, set_selector = s, index = i\<rparr>"
  "trace_log (system_at sel s i) = []"
  "registry (system_at sel s i) = [5 \<mapsto> array_module]"
  "module_store (system_at sel s i) = replicate 16 0"
  "registry_lookups (system_at sel s i) = 0"
  "handler_calls (system_at sel s i) = 0"
  by (simp_all add: system_defs)

lemma system0_simps:
  "env system0 = \<lparr>mhartid = 0, selector = 0, set_selector = 0, index = 0\<rparr>"
  "trace_log system0 = []"
  "registry system0 = [5 \<mapsto> array_module]"
  "module_store system0 = replicate 16 0"
  "registry_lookups system0 = 0"
  "handler_calls system0 = 0"
  by (simp_all add: system_defs)

section \<open>The claims\<close>

subsection \<open>Data-register access while the Selector is zero\<close>

text \<open>
  C1, as stated: a Data-register access (cxdata read or write) performed while the
  current selector is 0 fails with NoExtensionSelected. It does not hold of the hooks:
  on the freshly created system, whose selector is 0, both return nothing to their
  caller, so neither reports that failure.
\<close>

theorem cxdata_zero_selector_not_refused:
  "selector (env system0) = 0
   \<and> fst (cxdata_csr_read system0 0 0) \<noteq> Failure NoExtensionSelected
   \<and> fst (cxdata_csr_write system0 0 1) \<noteq> Failure NoExtensionSelected"
  by (simp add: fst_hooks system0_simps)

text \<open>
  C1, amended: a Data-register access performed while the current selector is 0 gives
  nothing back to its caller (the hooks are void, no failure is signalled); it invokes no
  extension-module handler and never consults the registry (the store of the modules and
  both counters are as before), and its whole effect is one trace event.
\<close>

theorem cxdata_zero_selector_returns_void:
  fixes w :: "('a::len word, 'm, 's, 'z) cx_system_scheme"
  assumes "selector (env w) = 0"
  shows "fst (cxdata_csr_read w reg_index val) = Void
    \<and> fst (cxdata_csr_write w reg_index val) = Void
    \<and> snd (cxdata_csr_read w reg_index val) =
        w\<lparr>trace_log := trace_log w @ [cx_event Cxdata CsrRead (mhartid (env w)) reg_index val]\<rparr>
    \<and> snd (cxdata_csr_write w reg_index val) =
        w\<lparr>trace_log := trace_log w @ [cx_event Cxdata CsrWrite (mhartid (env w)) reg_index val]\<rparr>
    \<and> registry_lookups (snd (cxdata_csr_read w reg_index val)) = registry_lookups w
    \<and> registry_lookups (snd (cxdata_csr_write w reg_index val)) = registry_lookups w
    \<and> handler_calls (snd (cxdata_csr_read w reg_index val)) = handler_calls w
    \<and> handler_calls (snd (cxdata_csr_write w reg_index val)) = handler_calls w
    \<and> module_store (snd (cxdata_csr_read w reg_index val)) = module_store w
    \<and> module_store (snd (cxdata_csr_write w reg_index val)) = module_store w"
  by (simp add: fst_hooks snd_hooks)

theorem cxdata_zero_selector_returns_void_witness:
  "selector (env system0) = 0
   \<and> fst (cxdata_csr_read system0 7 9) = Void
   \<and> fst (cxdata_csr_write system0 7 9) = Void
   \<and> trace_log (snd (cxdata_csr_read system0 7 9)) = [cx_event Cxdata CsrRead 0 7 9]
   \<and> trace_log (snd (cxdata_csr_write system0 7 9)) = [cx_event Cxdata CsrWrite 0 7 9]
   \<and> registry_lookups (snd (cxdata_csr_read system0 7 9)) = 0
   \<and> registry_lookups (snd (cxdata_csr_write system0 7 9)) = 0
   \<and> handler_calls (snd (cxdata_csr_read system0 7 9)) = 0
   \<and> handler_calls (snd (cxdata_csr_write system0 7 9)) = 0"
proof -
  have sel: "selector (env system0) = 0"
    by (simp add: system0_simps)
  from cxdata_zero_selector_returns_void [OF sel, of 7 9] show ?thesis
    by (simp add: system0_simps)
qed

subsection \<open>Reading the Selector back\<close>



subsection \<open>The coordinates across a Data-register access\<close>

text \<open>
  C5: for every hart state and every Data-register access, read or write, the Selector,
  Set-Selector and Index values of the hart's state are the same after the access as
  before it.
\<close>

theorem cxdata_keeps_coordinates:
  "selector (env (snd (cxdata_csr_read w reg_index val))) = selector (env w)
   \<and> set_selector (env (snd (cxdata_csr_read w reg_index val))) = set_selector (env w)
   \<and> index (env (snd (cxdata_csr_read w reg_index val))) = index (env w)
   \<and> selector (env (snd (cxdata_csr_write w reg_index val))) = selector (env w)
   \<and> set_selector (env (snd (cxdata_csr_write w reg_index val))) = set_selector (env w)
   \<and> index (env (snd (cxdata_csr_write w reg_index val))) = index (env w)"
  by (simp add: snd_hooks)

subsection \<open>The round trip through the Data register\<close>



subsection \<open>Data-register access with an unregistered Selector\<close>

text \<open>
  C4, as stated: for every non-zero selector value that has no handler registered, both
  a Data-register read and a Data-register write fail with UnknownExtension. It does not
  hold of the hooks: with the selector at 9, for which nothing is registered, both
  return nothing to their caller.
\<close>

theorem cxdata_unknown_selector_not_refused:
  "selector (env (system_at 9 0 0)) \<noteq> 0
   \<and> registry (system_at 9 0 0) (selector (env (system_at 9 0 0))) = None
   \<and> fst (cxdata_csr_read (system_at 9 0 0) 0 0) \<noteq> Failure UnknownExtension
   \<and> fst (cxdata_csr_write (system_at 9 0 0) 0 1) \<noteq> Failure UnknownExtension"
  by (simp add: fst_hooks system_at_simps)

text \<open>
  C4, amended: for every non-zero selector value that has no handler registered, both a
  Data-register read and a Data-register write return nothing to their caller (no
  UnknownExtension failure is signalled) and invoke no module handler: the store of the
  modules and both counters are as before, and the effect of the access is one trace
  event.
\<close>

theorem cxdata_unregistered_selector_returns_void:
  fixes w :: "('a::len word, 'm, 's, 'z) cx_system_scheme"
  assumes "selector (env w) \<noteq> 0" and "registry w (selector (env w)) = None"
  shows "fst (cxdata_csr_read w reg_index val) = Void
    \<and> fst (cxdata_csr_write w reg_index val) = Void
    \<and> snd (cxdata_csr_read w reg_index val) =
        w\<lparr>trace_log := trace_log w @ [cx_event Cxdata CsrRead (mhartid (env w)) reg_index val]\<rparr>
    \<and> snd (cxdata_csr_write w reg_index val) =
        w\<lparr>trace_log := trace_log w @ [cx_event Cxdata CsrWrite (mhartid (env w)) reg_index val]\<rparr>
    \<and> handler_calls (snd (cxdata_csr_read w reg_index val)) = handler_calls w
    \<and> handler_calls (snd (cxdata_csr_write w reg_index val)) = handler_calls w
    \<and> module_store (snd (cxdata_csr_read w reg_index val)) = module_store w
    \<and> module_store (snd (cxdata_csr_write w reg_index val)) = module_store w"
  by (simp add: fst_hooks snd_hooks)

theorem cxdata_unregistered_selector_returns_void_witness:
  "selector (env (system_at 9 0 0)) \<noteq> 0
   \<and> registry (system_at 9 0 0) (selector (env (system_at 9 0 0))) = None
   \<and> fst (cxdata_csr_read (system_at 9 0 0) 7 1) = Void
   \<and> fst (cxdata_csr_write (system_at 9 0 0) 7 1) = Void
   \<and> trace_log (snd (cxdata_csr_read (system_at 9 0 0) 7 1)) = [cx_event Cxdata CsrRead 0 7 1]
   \<and> trace_log (snd (cxdata_csr_write (system_at 9 0 0) 7 1)) = [cx_event Cxdata CsrWrite 0 7 1]
   \<and> handler_calls (snd (cxdata_csr_read (system_at 9 0 0) 7 1)) = 0
   \<and> handler_calls (snd (cxdata_csr_write (system_at 9 0 0) 7 1)) = 0"
proof -
  have nonzero: "selector (env (system_at 9 0 0)) \<noteq> 0"
    by (simp add: system_at_simps)
  have unbound: "registry (system_at 9 0 0) (selector (env (system_at 9 0 0))) = None"
    by (simp add: system_at_simps)
  from cxdata_unregistered_selector_returns_void [OF nonzero unbound, of 7 1]
  show ?thesis
    by (simp add: system_at_simps)
qed

subsection \<open>One trace event for every hook\<close>

text \<open>
  C6: every register operation, any of the eight reads and writes on Selector,
  Set-Selector, Index and Data, produces exactly one trace event, carrying the hart id,
  the register concerned and the value involved: the trace sink after the call is the
  sink before it followed by that one event.
\<close>

theorem cx_hooks_emit_one_event:
  "trace_log (snd (cxsel_csr_read w r v)) =
     trace_log w @ [cx_event Cxsel CsrRead (mhartid (env w)) r v]
   \<and> trace_log (snd (cxsel_csr_write w r v)) =
     trace_log w @ [cx_event Cxsel CsrWrite (mhartid (env w)) r v]
   \<and> trace_log (snd (cxsetsel_csr_read w r v)) =
     trace_log w @ [cx_event Cxsetsel CsrRead (mhartid (env w)) r v]
   \<and> trace_log (snd (cxsetsel_csr_write w r v)) =
     trace_log w @ [cx_event Cxsetsel CsrWrite (mhartid (env w)) r v]
   \<and> trace_log (snd (cxidx_csr_read w r v)) =
     trace_log w @ [cx_event Cxidx CsrRead (mhartid (env w)) r v]
   \<and> trace_log (snd (cxidx_csr_write w r v)) =
     trace_log w @ [cx_event Cxidx CsrWrite (mhartid (env w)) r v]
   \<and> trace_log (snd (cxdata_csr_read w r v)) =
     trace_log w @ [cx_event Cxdata CsrRead (mhartid (env w)) r v]
   \<and> trace_log (snd (cxdata_csr_write w r v)) =
     trace_log w @ [cx_event Cxdata CsrWrite (mhartid (env w)) r v]"
  by (simp add: snd_hooks)

subsection \<open>Writes of the three coordinate registers\<close>

text \<open>
  C7, as stated: the three coordinate-register writes perform an unconditional assignment
  of the value. It does not hold of the hooks: after each write hook has run with 5 on
  the freshly created system, the coordinate it is named after is still 0.
\<close>

theorem cx_coordinate_write_assigns_nothing:
  "selector (env (snd (cxsel_csr_write system0 0 5))) \<noteq> 5
   \<and> set_selector (env (snd (cxsetsel_csr_write system0 1 5))) \<noteq> 5
   \<and> index (env (snd (cxidx_csr_write system0 2 5))) \<noteq> 5"
  by (simp add: snd_hooks system0_simps)

text \<open>
  C7, amended: the three coordinate-register write operations are infallible: for every
  input value they never produce an error (they return nothing), and each triggers
  exactly one trace event carrying the value. They assign nothing themselves: the
  hart's state is the same after the call as before it.
\<close>

theorem cx_coordinate_writes:
  "fst (cxsel_csr_write w r v) = Void
   \<and> fst (cxsetsel_csr_write w r v) = Void
   \<and> fst (cxidx_csr_write w r v) = Void
   \<and> trace_log (snd (cxsel_csr_write w r v)) =
       trace_log w @ [cx_event Cxsel CsrWrite (mhartid (env w)) r v]
   \<and> trace_log (snd (cxsetsel_csr_write w r v)) =
       trace_log w @ [cx_event Cxsetsel CsrWrite (mhartid (env w)) r v]
   \<and> trace_log (snd (cxidx_csr_write w r v)) =
       trace_log w @ [cx_event Cxidx CsrWrite (mhartid (env w)) r v]
   \<and> env (snd (cxsel_csr_write w r v)) = env w
   \<and> env (snd (cxsetsel_csr_write w r v)) = env w
   \<and> env (snd (cxidx_csr_write w r v)) = env w"
  by (simp add: fst_hooks snd_hooks)

subsection \<open>The CPU state across a hook\<close>

text \<open>
  C9: every one of the eight hooks leaves the CPU state unchanged. For every machine,
  register index and value, the CPU state after the call is the CPU state before it;
  the machine after the call is the machine before it with one event more in the trace
  sink; and the hook reads no field but mhartid: run on any other CPU state with the
  same mhartid, it leaves the same trace.
\<close>

theorem cx_hooks_frame:
  fixes w :: "('a::len word, 'm, 'z) machine_scheme"
    and e :: "('a word, 'm) CPURISCVState_scheme"
  shows "env (snd (cxsel_csr_read w r v)) = env w
   \<and> env (snd (cxsel_csr_write w r v)) = env w
   \<and> env (snd (cxsetsel_csr_read w r v)) = env w
   \<and> env (snd (cxsetsel_csr_write w r v)) = env w
   \<and> env (snd (cxidx_csr_read w r v)) = env w
   \<and> env (snd (cxidx_csr_write w r v)) = env w
   \<and> env (snd (cxdata_csr_read w r v)) = env w
   \<and> env (snd (cxdata_csr_write w r v)) = env w
   \<and> snd (cxsel_csr_read w r v) =
       w\<lparr>trace_log := trace_log w @ [last (trace_log (snd (cxsel_csr_read w r v)))]\<rparr>
   \<and> snd (cxsel_csr_write w r v) =
       w\<lparr>trace_log := trace_log w @ [last (trace_log (snd (cxsel_csr_write w r v)))]\<rparr>
   \<and> snd (cxsetsel_csr_read w r v) =
       w\<lparr>trace_log := trace_log w @ [last (trace_log (snd (cxsetsel_csr_read w r v)))]\<rparr>
   \<and> snd (cxsetsel_csr_write w r v) =
       w\<lparr>trace_log := trace_log w @ [last (trace_log (snd (cxsetsel_csr_write w r v)))]\<rparr>
   \<and> snd (cxidx_csr_read w r v) =
       w\<lparr>trace_log := trace_log w @ [last (trace_log (snd (cxidx_csr_read w r v)))]\<rparr>
   \<and> snd (cxidx_csr_write w r v) =
       w\<lparr>trace_log := trace_log w @ [last (trace_log (snd (cxidx_csr_write w r v)))]\<rparr>
   \<and> snd (cxdata_csr_read w r v) =
       w\<lparr>trace_log := trace_log w @ [last (trace_log (snd (cxdata_csr_read w r v)))]\<rparr>
   \<and> snd (cxdata_csr_write w r v) =
       w\<lparr>trace_log := trace_log w @ [last (trace_log (snd (cxdata_csr_write w r v)))]\<rparr>
   \<and> trace_log (snd (cxsel_csr_read (w\<lparr>env := e\<lparr>mhartid := mhartid (env w)\<rparr>\<rparr>) r v)) =
       trace_log (snd (cxsel_csr_read w r v))
   \<and> trace_log (snd (cxsel_csr_write (w\<lparr>env := e\<lparr>mhartid := mhartid (env w)\<rparr>\<rparr>) r v)) =
       trace_log (snd (cxsel_csr_write w r v))
   \<and> trace_log (snd (cxsetsel_csr_read (w\<lparr>env := e\<lparr>mhartid := mhartid (env w)\<rparr>\<rparr>) r v)) =
       trace_log (snd (cxsetsel_csr_read w r v))
   \<and> trace_log (snd (cxsetsel_csr_write (w\<lparr>env := e\<lparr>mhartid := mhartid (env w)\<rparr>\<rparr>) r v)) =
       trace_log (snd (cxsetsel_csr_write w r v))
   \<and> trace_log (snd (cxidx_csr_read (w\<lparr>env := e\<lparr>mhartid := mhartid (env w)\<rparr>\<rparr>) r v)) =
       trace_log (snd (cxidx_csr_read w r v))
   \<and> trace_log (snd (cxidx_csr_write (w\<lparr>env := e\<lparr>mhartid := mhartid (env w)\<rparr>\<rparr>) r v)) =
       trace_log (snd (cxidx_csr_write w r v))
   \<and> trace_log (snd (cxdata_csr_read (w\<lparr>env := e\<lparr>mhartid := mhartid (env w)\<rparr>\<rparr>) r v)) =
       trace_log (snd (cxdata_csr_read w r v))
   \<and> trace_log (snd (cxdata_csr_write (w\<lparr>env := e\<lparr>mhartid := mhartid (env w)\<rparr>\<rparr>) r v)) =
       trace_log (snd (cxdata_csr_write w r v))"
  by (simp add: snd_hooks)

subsection \<open>Read hook and write hook of one register\<close>

text \<open>
  C10: for each of the four CX registers, the read hook and the write hook do the same
  but for the name of the trace event. Both return nothing, both take the value as an
  argument, and the machine each leaves is the machine it found with one trace event
  more, carrying (env->mhartid, reg_index, val); the event of the write hook is the event
  of the read hook with the kind of access changed. A read hook hands no register value
  to its caller.
\<close>

theorem cx_read_write_hooks_alike:
  "cxsel_csr_read w r v =
     (Void, w\<lparr>trace_log := trace_log w @ [cx_event Cxsel CsrRead (mhartid (env w)) r v]\<rparr>)
   \<and> cxsel_csr_write w r v =
     (Void, w\<lparr>trace_log := trace_log w @ [cx_event Cxsel CsrWrite (mhartid (env w)) r v]\<rparr>)
   \<and> cxsetsel_csr_read w r v =
     (Void, w\<lparr>trace_log := trace_log w @ [cx_event Cxsetsel CsrRead (mhartid (env w)) r v]\<rparr>)
   \<and> cxsetsel_csr_write w r v =
     (Void, w\<lparr>trace_log := trace_log w @ [cx_event Cxsetsel CsrWrite (mhartid (env w)) r v]\<rparr>)
   \<and> cxidx_csr_read w r v =
     (Void, w\<lparr>trace_log := trace_log w @ [cx_event Cxidx CsrRead (mhartid (env w)) r v]\<rparr>)
   \<and> cxidx_csr_write w r v =
     (Void, w\<lparr>trace_log := trace_log w @ [cx_event Cxidx CsrWrite (mhartid (env w)) r v]\<rparr>)
   \<and> cxdata_csr_read w r v =
     (Void, w\<lparr>trace_log := trace_log w @ [cx_event Cxdata CsrRead (mhartid (env w)) r v]\<rparr>)
   \<and> cxdata_csr_write w r v =
     (Void, w\<lparr>trace_log := trace_log w @ [cx_event Cxdata CsrWrite (mhartid (env w)) r v]\<rparr>)
   \<and> cxsel_csr_write w r v =
     (fst (cxsel_csr_read w r v), w\<lparr>trace_log := trace_log w @
        [(last (trace_log (snd (cxsel_csr_read w r v))))\<lparr>ev_kind := CsrWrite\<rparr>]\<rparr>)
   \<and> cxsetsel_csr_write w r v =
     (fst (cxsetsel_csr_read w r v), w\<lparr>trace_log := trace_log w @
        [(last (trace_log (snd (cxsetsel_csr_read w r v))))\<lparr>ev_kind := CsrWrite\<rparr>]\<rparr>)
   \<and> cxidx_csr_write w r v =
     (fst (cxidx_csr_read w r v), w\<lparr>trace_log := trace_log w @
        [(last (trace_log (snd (cxidx_csr_read w r v))))\<lparr>ev_kind := CsrWrite\<rparr>]\<rparr>)
   \<and> cxdata_csr_write w r v =
     (fst (cxdata_csr_read w r v), w\<lparr>trace_log := trace_log w @
        [(last (trace_log (snd (cxdata_csr_read w r v))))\<lparr>ev_kind := CsrWrite\<rparr>]\<rparr>)"
  by (simp add: prod_eq_iff fst_hooks snd_hooks)

end
